theory Spec2Isabelle
  imports Main
begin

section \<open>Values the monitoring is configured with\<close>

text \<open>
  \<^verbatim>\<open>Record<string, UsageThreshold>\<close> is a JavaScript object used as a dictionary.
  The code reads it in two ways only: \<^verbatim>\<open>for (const disambiguator in record)\<close>,
  with no own-property guard, and \<^verbatim>\<open>record[disambiguator]\<close>. Which keys the loop
  visits, and in which order, is decided by the JavaScript runtime and by how the caller
  built the object, not by this class. A value of the type is therefore given here by
  what the loop reads of it: the keys that \<^verbatim>\<open>for ... in\<close> visits (the enumerable
  string keys, own or inherited), in the order the runtime visits them, each with the
  value that \<^verbatim>\<open>record[key]\<close> reads.
\<close>

type_synonym 'v Record = "(string \<times> 'v) list"

text \<open>
  \<open>for_in r\<close> is the sequence of pairs \<open>(disambiguator, r[disambiguator])\<close> that a
  \<^verbatim>\<open>for (const disambiguator in r)\<close> loop goes through. The optional property of the
  props may be absent; \<^verbatim>\<open>for ... in undefined\<close> runs no iteration.
\<close>

definition for_in :: "'v Record option \<Rightarrow> (string \<times> 'v) list" where
  "for_in r = (case r of None \<Rightarrow> [] | Some entries \<Rightarrow> entries)"

text \<open>
  An alarm as the alarm factory returns it. The code reads its \<open>annotation\<close> only;
  everything else of it is the opaque \<open>alarm\<close>. The annotation type
  (\<^verbatim>\<open>HorizontalAnnotation\<close>), the metric type (\<^verbatim>\<open>MetricWithAlarmSupport\<close>) and the
  threshold type (\<^verbatim>\<open>UsageThreshold\<close>) are never inspected by the code and stay type
  variables \<open>'n\<close>, \<open>'m\<close> and \<open>'t\<close>.
\<close>

record ('n, 'x) AlarmWithAnnotation =
  annotation :: 'n
  alarm :: 'x

text \<open>
  The alarm factory and the alarm consumer are code outside this class. They act on
  the world around the object (the construct scope the alarms are created in, whatever
  the consumer keeps), which is the state \<open>'w\<close> passed through every call, and each
  call may throw an error \<open>'e\<close> instead of returning.
\<close>

type_synonym ('m, 't, 'n, 'x, 'e, 'w) addAlarm_method =
  "'m \<Rightarrow> 't \<Rightarrow> string \<Rightarrow> 'w \<Rightarrow> 'e + (('n, 'x) AlarmWithAnnotation \<times> 'w)"

record ('m, 't, 'n, 'x, 'e, 'w) UsageAlarmFactory =
  addMaxDiskUsagePercentAlarm :: "('m, 't, 'n, 'x, 'e, 'w) addAlarm_method"
  addMaxCpuUsagePercentAlarm :: "('m, 't, 'n, 'x, 'e, 'w) addAlarm_method"

type_synonym ('n, 'x, 'e, 'w) IAlarmConsumer =
  "('n, 'x) AlarmWithAnnotation list \<Rightarrow> 'w \<Rightarrow> 'e + 'w"

record ('t, 'n, 'x, 'e, 'w) RedshiftClusterMonitoringProps =
  clusterIdentifier :: string
  addDiskSpaceUsageAlarm :: "'t Record option"
  addCpuUsageAlarm :: "'t Record option"
  useCreatedAlarms :: "('n, 'x, 'e, 'w) IAlarmConsumer option"

text \<open>
  The metric factory (\<^verbatim>\<open>RedshiftClusterMetricFactory\<close>) is not part of this file of
  the repository. It is taken as the nine metrics its methods return.
\<close>

record 'm RedshiftClusterMetricFactory =
  metricTotalConnectionCount :: 'm
  metricAverageDiskSpaceUsageInPercent :: 'm
  metricAverageCpuUsageInPercent :: 'm
  metricShortQueryDurationP90InMillis :: 'm
  metricMediumQueryDurationP90InMillis :: 'm
  metricLongQueryDurationP90InMillis :: 'm
  metricReadLatencyP90InMillis :: 'm
  metricWriteLatencyP90InMillis :: 'm
  metricMaintenanceModeEnabled :: 'm

text \<open>
  What the constructor obtains from the scope and the naming strategy: the name
  \<^verbatim>\<open>resolveHumanReadableName()\<close> returns, the link \<^verbatim>\<open>getRedshiftClusterUrl\<close> returns
  for a cluster identifier (it may be undefined), the metric factory and the usage
  alarm factory.
\<close>

record ('m, 't, 'n, 'x, 'e, 'w) MonitoringScope =
  resolveHumanReadableName :: string
  getRedshiftClusterUrl :: "string \<Rightarrow> string option"
  metricFactory :: "'m RedshiftClusterMetricFactory"
  createUsageAlarmFactory :: "('m, 't, 'n, 'x, 'e, 'w) UsageAlarmFactory"

section \<open>The monitoring object\<close>

text \<open>
  The fields of \<^verbatim>\<open>RedshiftClusterMonitoring\<close>, and \<open>alarms\<close>, the list of the base
  class \<^verbatim>\<open>Monitoring\<close> behind \<^verbatim>\<open>addAlarm\<close> and \<^verbatim>\<open>createdAlarms\<close>.
\<close>

record ('m, 'n, 'x) RedshiftClusterMonitoring =
  title :: string
  url :: "string option"
  usageAnnotations :: "'n list"
  alarms :: "('n, 'x) AlarmWithAnnotation list"
  connectionsMetric :: 'm
  diskSpaceUsageMetric :: 'm
  cpuUsageMetric :: 'm
  shortQueryDurationMetric :: 'm
  mediumQueryDurationMetric :: 'm
  longQueryDurationMetric :: 'm
  readLatencyMetric :: 'm
  writeLatencyMetric :: 'm
  maintenanceModeMetric :: 'm

text \<open>
  Modelled from the spec: the base class \<^verbatim>\<open>Monitoring\<close> is missing from the sources.
  The spec has \<^verbatim>\<open>addAlarm\<close> append the alarm to the alarm collection of the object, and
  the accessor \<^verbatim>\<open>createdAlarms\<close> return that collection in order.
\<close>

definition addAlarm ::
  "('n, 'x) AlarmWithAnnotation \<Rightarrow> ('m, 'n, 'x) RedshiftClusterMonitoring
     \<Rightarrow> ('m, 'n, 'x) RedshiftClusterMonitoring" where
  "addAlarm createdAlarm this = this\<lparr>alarms := alarms this @ [createdAlarm]\<rparr>"

definition createdAlarms ::
  "('m, 'n, 'x) RedshiftClusterMonitoring \<Rightarrow> ('n, 'x) AlarmWithAnnotation list" where
  "createdAlarms this = alarms this"

text \<open>
  A call either returns, or throws. A throw leaves the object and the world as they
  were when it happened: \<open>Raised e s\<close> keeps that state.
\<close>

datatype ('e, 's) outcome = Raised 'e 's | Returned 's

text \<open>
  The body of the two \<^verbatim>\<open>for ... in\<close> loops of the constructor, which differ in the
  factory method and the metric only: build the alarm, push its annotation, add the
  alarm. The entries are those of \<open>for_in\<close>, in its order.
\<close>

fun addUsageAlarms ::
  "('m, 't, 'n, 'x, 'e, 'w) addAlarm_method \<Rightarrow> 'm \<Rightarrow> (string \<times> 't) list
     \<Rightarrow> ('m, 'n, 'x) RedshiftClusterMonitoring \<Rightarrow> 'w
     \<Rightarrow> ('e, ('m, 'n, 'x) RedshiftClusterMonitoring \<times> 'w) outcome" where
  "addUsageAlarms add metric [] this w = Returned (this, w)"
| "addUsageAlarms add metric ((disambiguator, alarmProps) # entries) this w =
     (case add metric alarmProps disambiguator w of
        Inl e \<Rightarrow> Raised e (this, w)
      | Inr (createdAlarm, w') \<Rightarrow>
          addUsageAlarms add metric entries
            (addAlarm createdAlarm
               (this\<lparr>usageAnnotations := usageAnnotations this @ [annotation createdAlarm]\<rparr>))
            w')"

text \<open>
  The constructor, first part: the object after \<^verbatim>\<open>super(scope, props)\<close> and the
  assignments to its fields, before the loops.
\<close>

definition assign_fields ::
  "('m, 't, 'n, 'x, 'e, 'w) MonitoringScope
     \<Rightarrow> ('t, 'n, 'x, 'e, 'w) RedshiftClusterMonitoringProps
     \<Rightarrow> ('m, 'n, 'x) RedshiftClusterMonitoring" where
  "assign_fields scope props =
     (let factory = metricFactory scope
      in \<lparr>title = resolveHumanReadableName scope,
          url = getRedshiftClusterUrl scope (clusterIdentifier props),
          usageAnnotations = [],
          alarms = [],
          connectionsMetric = metricTotalConnectionCount factory,
          diskSpaceUsageMetric = metricAverageDiskSpaceUsageInPercent factory,
          cpuUsageMetric = metricAverageCpuUsageInPercent factory,
          shortQueryDurationMetric = metricShortQueryDurationP90InMillis factory,
          mediumQueryDurationMetric = metricMediumQueryDurationP90InMillis factory,
          longQueryDurationMetric = metricLongQueryDurationP90InMillis factory,
          readLatencyMetric = metricReadLatencyP90InMillis factory,
          writeLatencyMetric = metricWriteLatencyP90InMillis factory,
          maintenanceModeMetric = metricMaintenanceModeEnabled factory\<rparr>)"

text \<open>
  The constructor: the assignments, the loop over the disk thresholds, the loop over
  the cpu thresholds, then \<^verbatim>\<open>props.useCreatedAlarms?.consume(this.createdAlarms())\<close>.
\<close>

definition new_RedshiftClusterMonitoring ::
  "('m, 't, 'n, 'x, 'e, 'w) MonitoringScope
     \<Rightarrow> ('t, 'n, 'x, 'e, 'w) RedshiftClusterMonitoringProps \<Rightarrow> 'w
     \<Rightarrow> ('e, ('m, 'n, 'x) RedshiftClusterMonitoring \<times> 'w) outcome" where
  "new_RedshiftClusterMonitoring scope props w =
     (let usageAlarmFactory = createUsageAlarmFactory scope;
          this = assign_fields scope props
      in case addUsageAlarms (addMaxDiskUsagePercentAlarm usageAlarmFactory)
                (diskSpaceUsageMetric this) (for_in (addDiskSpaceUsageAlarm props)) this w of
           Raised e s \<Rightarrow> Raised e s
         | Returned (this1, w1) \<Rightarrow>
            (case addUsageAlarms (addMaxCpuUsagePercentAlarm usageAlarmFactory)
                    (cpuUsageMetric this1) (for_in (addCpuUsageAlarm props)) this1 w1 of
               Raised e s \<Rightarrow> Raised e s
             | Returned (this2, w2) \<Rightarrow>
                (case useCreatedAlarms props of
                   None \<Rightarrow> Returned (this2, w2)
                 | Some consume \<Rightarrow>
                    (case consume (createdAlarms this2) w2 of
                       Inl e \<Rightarrow> Raised e (this2, w2)
                     | Inr w3 \<Rightarrow> Returned (this2, w3)))))"

section \<open>Widgets\<close>

text \<open>
  The constants of \<^verbatim>\<open>../../common\<close> are not part of this file of the repository: the
  grid sizes are taken as a parameter, the four axes as the names they have.
\<close>

record GridConstants =
  ThirdWidth :: nat
  QuarterWidth :: nat
  HalfQuarterWidth :: nat
  DefaultGraphWidgetHeight :: nat
  DefaultSummaryWidgetHeight :: nat

datatype YAxisProps =
  PercentageAxisFromZeroToHundred
| CountAxisFromZero
| TimeAxisMillisFromZero
| BooleanAxisFromZeroToOne

text \<open>
  The properties handed to \<^verbatim>\<open>new MonitoringHeaderWidget\<close> and to
  \<^verbatim>\<open>new GraphWidget\<close>. A property the code does not pass is \<open>None\<close>.
\<close>

record MonitoringHeaderWidgetProps =
  family :: string
  header_title :: string
  goToLinkUrl :: "string option"

record ('m, 'n) GraphWidgetProps =
  width :: nat
  height :: nat
  graph_title :: string
  left :: "'m list"
  leftYAxis :: YAxisProps
  leftAnnotations :: "'n list option"

datatype ('m, 'n) IWidget =
  MonitoringHeaderWidget MonitoringHeaderWidgetProps
| GraphWidget "('m, 'n) GraphWidgetProps"

definition createTitleWidget :: "('m, 'n, 'x) RedshiftClusterMonitoring \<Rightarrow> ('m, 'n) IWidget" where
  "createTitleWidget this =
     MonitoringHeaderWidget
       \<lparr>family = ''Redshift Cluster'', header_title = title this, goToLinkUrl = url this\<rparr>"

definition createCpuAndDiskUsageWidget ::
  "('m, 'n, 'x) RedshiftClusterMonitoring \<Rightarrow> nat \<Rightarrow> nat \<Rightarrow> ('m, 'n) IWidget" where
  "createCpuAndDiskUsageWidget this w h =
     GraphWidget
       \<lparr>width = w, height = h, graph_title = ''CPU/Disk Usage'',
        left = [cpuUsageMetric this, diskSpaceUsageMetric this],
        leftYAxis = PercentageAxisFromZeroToHundred,
        leftAnnotations = Some (usageAnnotations this)\<rparr>"

definition createConnectionsWidget ::
  "('m, 'n, 'x) RedshiftClusterMonitoring \<Rightarrow> nat \<Rightarrow> nat \<Rightarrow> ('m, 'n) IWidget" where
  "createConnectionsWidget this w h =
     GraphWidget
       \<lparr>width = w, height = h, graph_title = ''Connections'',
        left = [connectionsMetric this],
        leftYAxis = CountAxisFromZero,
        leftAnnotations = None\<rparr>"

definition createQueryDurationWidget ::
  "('m, 'n, 'x) RedshiftClusterMonitoring \<Rightarrow> nat \<Rightarrow> nat \<Rightarrow> ('m, 'n) IWidget" where
  "createQueryDurationWidget this w h =
     GraphWidget
       \<lparr>width = w, height = h, graph_title = ''Query Duration'',
        left = [shortQueryDurationMetric this, mediumQueryDurationMetric this,
                longQueryDurationMetric this],
        leftYAxis = TimeAxisMillisFromZero,
        leftAnnotations = None\<rparr>"

definition createLatencyWidget ::
  "('m, 'n, 'x) RedshiftClusterMonitoring \<Rightarrow> nat \<Rightarrow> nat \<Rightarrow> ('m, 'n) IWidget" where
  "createLatencyWidget this w h =
     GraphWidget
       \<lparr>width = w, height = h, graph_title = ''Latency'',
        left = [readLatencyMetric this, writeLatencyMetric this],
        leftYAxis = TimeAxisMillisFromZero,
        leftAnnotations = None\<rparr>"

definition createMaintenanceWidget ::
  "('m, 'n, 'x) RedshiftClusterMonitoring \<Rightarrow> nat \<Rightarrow> nat \<Rightarrow> ('m, 'n) IWidget" where
  "createMaintenanceWidget this w h =
     GraphWidget
       \<lparr>width = w, height = h, graph_title = ''Maintenance'',
        left = [maintenanceModeMetric this],
        leftYAxis = BooleanAxisFromZeroToOne,
        leftAnnotations = None\<rparr>"

definition summaryWidgets ::
  "GridConstants \<Rightarrow> ('m, 'n, 'x) RedshiftClusterMonitoring \<Rightarrow> ('m, 'n) IWidget list" where
  "summaryWidgets c this =
     [createTitleWidget this,
      createCpuAndDiskUsageWidget this (ThirdWidth c) (DefaultSummaryWidgetHeight c),
      createConnectionsWidget this (ThirdWidth c) (DefaultSummaryWidgetHeight c),
      createQueryDurationWidget this (ThirdWidth c) (DefaultSummaryWidgetHeight c)]"

definition widgets ::
  "GridConstants \<Rightarrow> ('m, 'n, 'x) RedshiftClusterMonitoring \<Rightarrow> ('m, 'n) IWidget list" where
  "widgets c this =
     [createTitleWidget this,
      createCpuAndDiskUsageWidget this (QuarterWidth c) (DefaultGraphWidgetHeight c),
      createConnectionsWidget this (QuarterWidth c) (DefaultGraphWidgetHeight c),
      createQueryDurationWidget this (QuarterWidth c) (DefaultGraphWidgetHeight c),
      createLatencyWidget this (HalfQuarterWidth c) (DefaultGraphWidgetHeight c),
      createMaintenanceWidget this (HalfQuarterWidth c) (DefaultGraphWidgetHeight c)]"

subsection \<open>A call of a layout method\<close>

text \<open>
  The two widget classes are code outside this class (\<^verbatim>\<open>MonitoringHeaderWidget\<close> of
  \<^verbatim>\<open>../../dashboard\<close>, \<^verbatim>\<open>GraphWidget\<close> of \<^verbatim>\<open>aws-cdk-lib\<close>). Their constructors are
  taken as a parameter: given the properties, a constructor returns the widget, of a
  type \<open>'g\<close>, or throws an error \<open>'e\<close>. A value of \<open>IWidget\<close> above says which
  constructor a \<^verbatim>\<open>create...Widget\<close> method calls, and with which properties.
\<close>

record ('m, 'n, 'e, 'g) WidgetClasses =
  new_MonitoringHeaderWidget :: "MonitoringHeaderWidgetProps \<Rightarrow> 'e + 'g"
  new_GraphWidget :: "('m, 'n) GraphWidgetProps \<Rightarrow> 'e + 'g"

definition construct :: "('m, 'n, 'e, 'g) WidgetClasses \<Rightarrow> ('m, 'n) IWidget \<Rightarrow> 'e + 'g" where
  "construct classes wd =
     (case wd of
        MonitoringHeaderWidget p \<Rightarrow> new_MonitoringHeaderWidget classes p
      | GraphWidget g \<Rightarrow> new_GraphWidget classes g)"

text \<open>
  The array literal of a layout method evaluates its elements from left to right; the
  first constructor that throws ends the call with its error.
\<close>

fun construct_all ::
  "('m, 'n, 'e, 'g) WidgetClasses \<Rightarrow> ('m, 'n) IWidget list \<Rightarrow> 'e + 'g list" where
  "construct_all classes [] = Inr []"
| "construct_all classes (wd # wds) =
     (case construct classes wd of
        Inl e \<Rightarrow> Inl e
      | Inr g \<Rightarrow>
          (case construct_all classes wds of
             Inl e \<Rightarrow> Inl e
           | Inr gs \<Rightarrow> Inr (g # gs)))"

text \<open>
  A call of \<^verbatim>\<open>summaryWidgets()\<close> or \<^verbatim>\<open>widgets()\<close> on the object: what the call gives
  (the widgets, or the error thrown) and the object after the call. The methods and the
  \<^verbatim>\<open>create...Widget\<close> methods they call assign to no field, and the constructors are
  handed the values of the fields: the object after the call is the object before it.
\<close>

definition call_summaryWidgets ::
  "('m, 'n, 'e, 'g) WidgetClasses \<Rightarrow> GridConstants \<Rightarrow> ('m, 'n, 'x) RedshiftClusterMonitoring
     \<Rightarrow> ('e + 'g list) \<times> ('m, 'n, 'x) RedshiftClusterMonitoring" where
  "call_summaryWidgets classes c this = (construct_all classes (summaryWidgets c this), this)"

definition call_widgets ::
  "('m, 'n, 'e, 'g) WidgetClasses \<Rightarrow> GridConstants \<Rightarrow> ('m, 'n, 'x) RedshiftClusterMonitoring
     \<Rightarrow> ('e + 'g list) \<times> ('m, 'n, 'x) RedshiftClusterMonitoring" where
  "call_widgets classes c this = (construct_all classes (widgets c this), this)"

section \<open>What the claims are stated with\<close>

subsection \<open>The alarms of a threshold map, as a list\<close>

text \<open>
  The specification of one loop, in the words of the spec: for each entry, in
  map-iteration order, one alarm is built by the alarm builder from the metric, the
  threshold and the disambiguator, and the first failure ends the run.
  \<open>build_in_order\<close> returns the alarms built before the run ended, the world then, and
  the error that ended it, if one did.
\<close>

fun build_in_order ::
  "('m, 't, 'n, 'x, 'e, 'w) addAlarm_method \<Rightarrow> 'm \<Rightarrow> (string \<times> 't) list \<Rightarrow> 'w
     \<Rightarrow> ('n, 'x) AlarmWithAnnotation list \<times> 'w \<times> 'e option" where
  "build_in_order add metric [] w = ([], w, None)"
| "build_in_order add metric ((disambiguator, threshold) # entries) w =
     (case add metric threshold disambiguator w of
        Inl e \<Rightarrow> ([], w, Some e)
      | Inr (a, w') \<Rightarrow>
          (case build_in_order add metric entries w' of
             (as, w'', r) \<Rightarrow> (a # as, w'', r)))"

text \<open>The object with the alarms \<open>as\<close> and their annotations appended to its two collections.\<close>

definition appended ::
  "('n, 'x) AlarmWithAnnotation list \<Rightarrow> ('m, 'n, 'x) RedshiftClusterMonitoring
     \<Rightarrow> ('m, 'n, 'x) RedshiftClusterMonitoring" where
  "appended as this =
     this\<lparr>usageAnnotations := usageAnnotations this @ map annotation as,
          alarms := alarms this @ as\<rparr>"

subsection \<open>Reading a widget\<close>

definition widget_metrics :: "('m, 'n) IWidget \<Rightarrow> 'm list" where
  "widget_metrics wd = (case wd of MonitoringHeaderWidget h \<Rightarrow> [] | GraphWidget g \<Rightarrow> left g)"

definition widget_axis :: "('m, 'n) IWidget \<Rightarrow> YAxisProps option" where
  "widget_axis wd =
     (case wd of MonitoringHeaderWidget h \<Rightarrow> None | GraphWidget g \<Rightarrow> Some (leftYAxis g))"

definition widget_leftAnnotations :: "('m, 'n) IWidget \<Rightarrow> 'n list option" where
  "widget_leftAnnotations wd =
     (case wd of MonitoringHeaderWidget h \<Rightarrow> None | GraphWidget g \<Rightarrow> leftAnnotations g)"

definition widget_width :: "('m, 'n) IWidget \<Rightarrow> nat option" where
  "widget_width wd =
     (case wd of MonitoringHeaderWidget h \<Rightarrow> None | GraphWidget g \<Rightarrow> Some (width g))"

text \<open>The same widget in another size; a header widget has no size of its own.\<close>

definition resized :: "nat \<Rightarrow> nat \<Rightarrow> ('m, 'n) IWidget \<Rightarrow> ('m, 'n) IWidget" where
  "resized w h wd =
     (case wd of
        MonitoringHeaderWidget p \<Rightarrow> MonitoringHeaderWidget p
      | GraphWidget g \<Rightarrow> GraphWidget (g\<lparr>width := w, height := h\<rparr>))"

subsection \<open>Unit families\<close>

text \<open>
  Modelled from the spec: the metric catalogue (\<^verbatim>\<open>RedshiftClusterMetricFactory\<close>) and the
  axis constants are missing from the sources. The spec gives every metric role a known
  unit, and names four axis semantics: percentage 0 to 100, count from zero, time in
  milliseconds from zero, boolean 0/1. \<open>catalogue_units unit_of factory\<close> says that the
  metrics of the factory have, under \<open>unit_of\<close>, the units their roles name.
\<close>

datatype UnitFamily = Percentage | Count | TimeMillis | Boolean

fun axis_family :: "YAxisProps \<Rightarrow> UnitFamily" where
  "axis_family PercentageAxisFromZeroToHundred = Percentage"
| "axis_family CountAxisFromZero = Count"
| "axis_family TimeAxisMillisFromZero = TimeMillis"
| "axis_family BooleanAxisFromZeroToOne = Boolean"

definition catalogue_units :: "('m \<Rightarrow> UnitFamily) \<Rightarrow> 'm RedshiftClusterMetricFactory \<Rightarrow> bool" where
  "catalogue_units unit_of factory =
     (unit_of (metricTotalConnectionCount factory) = Count \<and>
      unit_of (metricAverageDiskSpaceUsageInPercent factory) = Percentage \<and>
      unit_of (metricAverageCpuUsageInPercent factory) = Percentage \<and>
      unit_of (metricShortQueryDurationP90InMillis factory) = TimeMillis \<and>
      unit_of (metricMediumQueryDurationP90InMillis factory) = TimeMillis \<and>
      unit_of (metricLongQueryDurationP90InMillis factory) = TimeMillis \<and>
      unit_of (metricReadLatencyP90InMillis factory) = TimeMillis \<and>
      unit_of (metricWriteLatencyP90InMillis factory) = TimeMillis \<and>
      unit_of (metricMaintenanceModeEnabled factory) = Boolean)"

subsection \<open>A configuration to run the code on\<close>

text \<open>
  Metrics are their names, a threshold is its limit, an annotation is the limit with
  the disambiguator as label, an alarm is its name, an error is its message. The world
  is the names of the alarms created so far and the calls the consumer has received.
  The example factory rejects a limit above 100 and a name it has already created.
\<close>

type_synonym example_alarm = "(nat \<times> string, string) AlarmWithAnnotation"

type_synonym example_world = "string list \<times> example_alarm list list"

definition example_add ::
  "string \<Rightarrow> (string, nat, nat \<times> string, string, string, example_world) addAlarm_method" where
  "example_add prefix metric threshold disambiguator w =
     (if 100 < threshold then Inl ''limit above 100''
      else if prefix @ disambiguator \<in> set (fst w) then Inl ''alarm exists''
      else Inr (\<lparr>annotation = (threshold, disambiguator), alarm = prefix @ disambiguator\<rparr>,
                (fst w @ [prefix @ disambiguator], snd w)))"

definition example_consume :: "(nat \<times> string, string, string, example_world) IAlarmConsumer" where
  "example_consume as w = Inr (fst w, snd w @ [as])"

definition example_factory :: "string RedshiftClusterMetricFactory" where
  "example_factory =
     \<lparr>metricTotalConnectionCount = ''connections'',
      metricAverageDiskSpaceUsageInPercent = ''disk'',
      metricAverageCpuUsageInPercent = ''cpu'',
      metricShortQueryDurationP90InMillis = ''short'',
      metricMediumQueryDurationP90InMillis = ''medium'',
      metricLongQueryDurationP90InMillis = ''long'',
      metricReadLatencyP90InMillis = ''read'',
      metricWriteLatencyP90InMillis = ''write'',
      metricMaintenanceModeEnabled = ''maintenance''\<rparr>"

definition example_unit_of :: "string \<Rightarrow> UnitFamily" where
  "example_unit_of m =
     (if m = ''connections'' then Count
      else if m = ''disk'' \<or> m = ''cpu'' then Percentage
      else if m = ''maintenance'' then Boolean
      else TimeMillis)"

definition example_scope ::
  "string \<Rightarrow> (string, nat, nat \<times> string, string, string, example_world) MonitoringScope" where
  "example_scope name =
     \<lparr>resolveHumanReadableName = name,
      getRedshiftClusterUrl = (\<lambda>identifier. Some (''https://console/'' @ identifier)),
      metricFactory = example_factory,
      createUsageAlarmFactory =
        \<lparr>addMaxDiskUsagePercentAlarm = example_add ''Disk-'',
         addMaxCpuUsagePercentAlarm = example_add ''CPU-''\<rparr>\<rparr>"

definition example_props ::
  "nat Record option \<Rightarrow> nat Record option
     \<Rightarrow> (nat \<times> string, string, string, example_world) IAlarmConsumer option
     \<Rightarrow> (nat, nat \<times> string, string, string, example_world) RedshiftClusterMonitoringProps" where
  "example_props disk cpu consumer =
     \<lparr>clusterIdentifier = ''c1'', addDiskSpaceUsageAlarm = disk, addCpuUsageAlarm = cpu,
      useCreatedAlarms = consumer\<rparr>"

definition example_grid :: GridConstants where
  "example_grid =
     \<lparr>ThirdWidth = 8, QuarterWidth = 6, HalfQuarterWidth = 3,
      DefaultGraphWidgetHeight = 5, DefaultSummaryWidgetHeight = 6\<rparr>"

text \<open>The object the example scope gives, with the alarms \<open>as\<close> in it.\<close>

definition example_object ::
  "string \<Rightarrow> example_alarm list \<Rightarrow> (string, nat \<times> string, string) RedshiftClusterMonitoring" where
  "example_object name as =
     \<lparr>title = name, url = Some ''https://console/c1'',
      usageAnnotations = map annotation as, alarms = as,
      connectionsMetric = ''connections'', diskSpaceUsageMetric = ''disk'',
      cpuUsageMetric = ''cpu'', shortQueryDurationMetric = ''short'',
      mediumQueryDurationMetric = ''medium'', longQueryDurationMetric = ''long'',
      readLatencyMetric = ''read'', writeLatencyMetric = ''write'',
      maintenanceModeMetric = ''maintenance''\<rparr>"

definition example_alarms :: "example_alarm list" where
  "example_alarms =
     [\<lparr>annotation = (70, ''warn''), alarm = ''Disk-warn''\<rparr>,
      \<lparr>annotation = (90, ''crit''), alarm = ''Disk-crit''\<rparr>,
      \<lparr>annotation = (90, ''crit''), alarm = ''CPU-crit''\<rparr>]"

text \<open>
  Example widget classes: a widget is the text it is headed with, and the graph widget
  refuses a width of 0.
\<close>

definition example_classes :: "(string, nat \<times> string, string, string) WidgetClasses" where
  "example_classes =
     \<lparr>new_MonitoringHeaderWidget = (\<lambda>p. Inr (family p @ '': '' @ header_title p)),
      new_GraphWidget = (\<lambda>g. if width g = 0 then Inl ''no width'' else Inr (graph_title g))\<rparr>"

section \<open>Properties of the model\<close>

subsection \<open>The loops and the constructor\<close>

lemma appended_Nil: "appended [] this = this"
  by (simp add: appended_def)

lemma appended_Cons:
  "appended (a # as) this =
     appended as (addAlarm a (this\<lparr>usageAnnotations := usageAnnotations this @ [annotation a]\<rparr>))"
  by (simp add: appended_def addAlarm_def)

lemma appended_appended: "appended bs (appended as this) = appended (as @ bs) this"
  by (simp add: appended_def)

lemma appended_fields:
  "usageAnnotations (appended as this) = usageAnnotations this @ map annotation as"
  "alarms (appended as this) = alarms this @ as"
  "title (appended as this) = title this"
  "url (appended as this) = url this"
  "connectionsMetric (appended as this) = connectionsMetric this"
  "diskSpaceUsageMetric (appended as this) = diskSpaceUsageMetric this"
  "cpuUsageMetric (appended as this) = cpuUsageMetric this"
  "shortQueryDurationMetric (appended as this) = shortQueryDurationMetric this"
  "mediumQueryDurationMetric (appended as this) = mediumQueryDurationMetric this"
  "longQueryDurationMetric (appended as this) = longQueryDurationMetric this"
  "readLatencyMetric (appended as this) = readLatencyMetric this"
  "writeLatencyMetric (appended as this) = writeLatencyMetric this"
  "maintenanceModeMetric (appended as this) = maintenanceModeMetric this"
  by (simp_all add: appended_def)

lemma assign_fields_fields:
  "usageAnnotations (assign_fields scope props) = []"
  "alarms (assign_fields scope props) = []"
  "title (assign_fields scope props) = resolveHumanReadableName scope"
  "url (assign_fields scope props) = getRedshiftClusterUrl scope (clusterIdentifier props)"
  "connectionsMetric (assign_fields scope props) = metricTotalConnectionCount (metricFactory scope)"
  "diskSpaceUsageMetric (assign_fields scope props) = metricAverageDiskSpaceUsageInPercent (metricFactory scope)"
  "cpuUsageMetric (assign_fields scope props) = metricAverageCpuUsageInPercent (metricFactory scope)"
  "shortQueryDurationMetric (assign_fields scope props) = metricShortQueryDurationP90InMillis (metricFactory scope)"
  "mediumQueryDurationMetric (assign_fields scope props) = metricMediumQueryDurationP90InMillis (metricFactory scope)"
  "longQueryDurationMetric (assign_fields scope props) = metricLongQueryDurationP90InMillis (metricFactory scope)"
  "readLatencyMetric (assign_fields scope props) = metricReadLatencyP90InMillis (metricFactory scope)"
  "writeLatencyMetric (assign_fields scope props) = metricWriteLatencyP90InMillis (metricFactory scope)"
  "maintenanceModeMetric (assign_fields scope props) = metricMaintenanceModeEnabled (metricFactory scope)"
  by (simp_all add: assign_fields_def Let_def)

lemma addUsageAlarms_build:
  "addUsageAlarms add metric entries this w =
     (case build_in_order add metric entries w of
        (as, w', None) \<Rightarrow> Returned (appended as this, w')
      | (as, w', Some e) \<Rightarrow> Raised e (appended as this, w'))"
proof (induction entries arbitrary: this w)
  case Nil
  show ?case by (simp add: appended_Nil)
next
  case (Cons p entries)
  obtain k t where p: "p = (k, t)" by (cases p)
  show ?case
  proof (cases "add metric t k w")
    case (Inl e)
    then show ?thesis by (simp add: p appended_Nil)
  next
    case (Inr r)
    obtain a w1 where r: "r = (a, w1)" by (cases r)
    show ?thesis
      using Inr r Cons.IH [of "addAlarm a (this\<lparr>usageAnnotations := usageAnnotations this @ [annotation a]\<rparr>)" w1]
      by (simp add: p appended_Cons split: prod.splits option.splits)
  qed
qed

text \<open>The constructor in terms of the two runs of the alarm builder.\<close>

lemma new_by_runs:
  assumes "build_in_order (addMaxDiskUsagePercentAlarm (createUsageAlarmFactory scope))
             (metricAverageDiskSpaceUsageInPercent (metricFactory scope))
             (for_in (addDiskSpaceUsageAlarm props)) w = (disk, w1, r1)"
    and "build_in_order (addMaxCpuUsagePercentAlarm (createUsageAlarmFactory scope))
             (metricAverageCpuUsageInPercent (metricFactory scope))
             (for_in (addCpuUsageAlarm props)) w1 = (cpu, w2, r2)"
  shows "new_RedshiftClusterMonitoring scope props w =
     (case r1 of
        Some e \<Rightarrow> Raised e (appended disk (assign_fields scope props), w1)
      | None \<Rightarrow>
         (case r2 of
            Some e \<Rightarrow> Raised e (appended (disk @ cpu) (assign_fields scope props), w2)
          | None \<Rightarrow>
             (case useCreatedAlarms props of
                None \<Rightarrow> Returned (appended (disk @ cpu) (assign_fields scope props), w2)
              | Some consume \<Rightarrow>
                 (case consume (disk @ cpu) w2 of
                    Inl e \<Rightarrow> Raised e (appended (disk @ cpu) (assign_fields scope props), w2)
                  | Inr w3 \<Rightarrow> Returned (appended (disk @ cpu) (assign_fields scope props), w3)))))"
  using assms
  by (simp add: new_RedshiftClusterMonitoring_def Let_def addUsageAlarms_build
      assign_fields_fields appended_fields appended_appended createdAlarms_def
      split: option.splits sum.splits)

lemma new_Returned_runs:
  assumes "new_RedshiftClusterMonitoring scope props w = Returned (this, w')"
  obtains disk cpu w1 w2 where
    "build_in_order (addMaxDiskUsagePercentAlarm (createUsageAlarmFactory scope))
       (metricAverageDiskSpaceUsageInPercent (metricFactory scope))
       (for_in (addDiskSpaceUsageAlarm props)) w = (disk, w1, None)"
    "build_in_order (addMaxCpuUsagePercentAlarm (createUsageAlarmFactory scope))
       (metricAverageCpuUsageInPercent (metricFactory scope))
       (for_in (addCpuUsageAlarm props)) w1 = (cpu, w2, None)"
    "this = appended (disk @ cpu) (assign_fields scope props)"
    "case useCreatedAlarms props of None \<Rightarrow> w' = w2 | Some consume \<Rightarrow> consume (disk @ cpu) w2 = Inr w'"
proof -
  obtain disk w1 r1 where d: "build_in_order (addMaxDiskUsagePercentAlarm (createUsageAlarmFactory scope))
       (metricAverageDiskSpaceUsageInPercent (metricFactory scope))
       (for_in (addDiskSpaceUsageAlarm props)) w = (disk, w1, r1)"
    by (rule prod_cases3)
  obtain cpu w2 r2 where c: "build_in_order (addMaxCpuUsagePercentAlarm (createUsageAlarmFactory scope))
       (metricAverageCpuUsageInPercent (metricFactory scope))
       (for_in (addCpuUsageAlarm props)) w1 = (cpu, w2, r2)"
    by (rule prod_cases3)
  from assms new_by_runs [OF d c]
  have "r1 = None" "r2 = None" "this = appended (disk @ cpu) (assign_fields scope props)"
    "case useCreatedAlarms props of None \<Rightarrow> w' = w2 | Some consume \<Rightarrow> consume (disk @ cpu) w2 = Inr w'"
    by (auto split: option.splits sum.splits)
  with d c that show ?thesis by blast
qed

lemma example_run:
  "new_RedshiftClusterMonitoring (example_scope ''warehouse'')
     (example_props (Some [(''warn'', 70), (''crit'', 90)]) (Some [(''crit'', 90)]) (Some example_consume))
     ([], []) =
   Returned (example_object ''warehouse'' example_alarms,
             ([''Disk-warn'', ''Disk-crit'', ''CPU-crit''], [example_alarms]))"
  by (simp add: new_RedshiftClusterMonitoring_def assign_fields_def example_scope_def
      example_props_def example_factory_def example_add_def example_consume_def
      example_object_def example_alarms_def createdAlarms_def addAlarm_def
      for_in_def)

lemma build_in_order_length:
  "build_in_order add metric entries w = (as, w', None) \<Longrightarrow> length as = length entries"
proof (induction entries arbitrary: w as)
  case Nil
  then show ?case by simp
next
  case (Cons p entries)
  obtain k t where p: "p = (k, t)" by (cases p)
  from Cons.prems Cons.IH show ?case
    by (auto simp: p split: sum.splits prod.splits)
qed

lemmas widget_defs =
  summaryWidgets_def widgets_def createTitleWidget_def createCpuAndDiskUsageWidget_def
  createConnectionsWidget_def createQueryDurationWidget_def createLatencyWidget_def
  createMaintenanceWidget_def

lemmas example_defs =
  example_scope_def example_props_def example_factory_def example_add_def
  example_consume_def example_object_def example_alarms_def example_grid_def
  example_unit_of_def

lemmas for_in_defs = for_in_def


section \<open>The claims\<close>

text \<open>
  C1. After construction the annotation sequence \<open>usageAnnotations\<close> has one entry for
  each entry of the disk-usage threshold map and one for each entry of the cpu-usage
  threshold map, N + M in all: the annotations of the disk-usage alarms, in the order
  the loop goes through the map, then those of the cpu-usage alarms, in the order of
  their map.
\<close>

theorem usageAnnotations_disk_before_cpu:
  assumes "new_RedshiftClusterMonitoring scope props w = Returned (this, w')"
  shows "\<exists>disk cpu w1 w2.
      build_in_order (addMaxDiskUsagePercentAlarm (createUsageAlarmFactory scope))
        (metricAverageDiskSpaceUsageInPercent (metricFactory scope))
        (for_in (addDiskSpaceUsageAlarm props)) w = (disk, w1, None)
    \<and> build_in_order (addMaxCpuUsagePercentAlarm (createUsageAlarmFactory scope))
        (metricAverageCpuUsageInPercent (metricFactory scope))
        (for_in (addCpuUsageAlarm props)) w1 = (cpu, w2, None)
    \<and> length disk = length (for_in (addDiskSpaceUsageAlarm props))
    \<and> length cpu = length (for_in (addCpuUsageAlarm props))
    \<and> usageAnnotations this = map annotation disk @ map annotation cpu
    \<and> length (usageAnnotations this) =
        length (for_in (addDiskSpaceUsageAlarm props)) + length (for_in (addCpuUsageAlarm props))"
proof -
  from assms obtain disk cpu w1 w2 where
    d: "build_in_order (addMaxDiskUsagePercentAlarm (createUsageAlarmFactory scope))
        (metricAverageDiskSpaceUsageInPercent (metricFactory scope))
        (for_in (addDiskSpaceUsageAlarm props)) w = (disk, w1, None)"
    and c: "build_in_order (addMaxCpuUsagePercentAlarm (createUsageAlarmFactory scope))
        (metricAverageCpuUsageInPercent (metricFactory scope))
        (for_in (addCpuUsageAlarm props)) w1 = (cpu, w2, None)"
    and obj: "this = appended (disk @ cpu) (assign_fields scope props)"
    by (rule new_Returned_runs)
  have ld: "length disk = length (for_in (addDiskSpaceUsageAlarm props))"
    using d by (rule build_in_order_length)
  have lc: "length cpu = length (for_in (addCpuUsageAlarm props))"
    using c by (rule build_in_order_length)
  have ann: "usageAnnotations this = map annotation disk @ map annotation cpu"
    by (simp add: obj appended_fields assign_fields_fields)
  have "length (usageAnnotations this) =
        length (for_in (addDiskSpaceUsageAlarm props)) + length (for_in (addCpuUsageAlarm props))"
    by (simp add: ann ld lc)
  with d c ld lc ann show ?thesis by blast
qed

theorem usageAnnotations_disk_before_cpu_witness:
  "new_RedshiftClusterMonitoring (example_scope ''warehouse'')
     (example_props (Some [(''warn'', 70), (''crit'', 90)]) (Some [(''crit'', 90)])
        (Some example_consume)) ([], []) =
   Returned (example_object ''warehouse'' example_alarms,
             ([''Disk-warn'', ''Disk-crit'', ''CPU-crit''], [example_alarms]))
   \<and> usageAnnotations (example_object ''warehouse'' example_alarms) =
       [(70, ''warn''), (90, ''crit''), (90, ''crit'')]
   \<and> length (usageAnnotations (example_object ''warehouse'' example_alarms)) = 2 + 1"
proof -
  note run = example_run
  from usageAnnotations_disk_before_cpu [OF run]
  have "length (usageAnnotations (example_object ''warehouse'' example_alarms)) =
        length (for_in (addDiskSpaceUsageAlarm (example_props (Some [(''warn'', 70), (''crit'', 90)]) (Some [(''crit'', 90)])
        (Some example_consume)))) + length (for_in (addCpuUsageAlarm (example_props (Some [(''warn'', 70), (''crit'', 90)]) (Some [(''crit'', 90)])
        (Some example_consume))))"
    by blast
  then have "length (usageAnnotations (example_object ''warehouse'' example_alarms)) = 2 + 1"
    by (simp add: example_props_def for_in_defs)
  moreover have "usageAnnotations (example_object ''warehouse'' example_alarms) =
       [(70, ''warn''), (90, ''crit''), (90, ''crit'')]"
    by (simp add: example_object_def example_alarms_def)
  ultimately show ?thesis using run by simp
qed

text \<open>
  C2. In both layouts of a constructed object the second widget is the combined
  CPU/Disk usage widget, and its annotations are the whole annotation sequence of the
  object, in order, which is the annotations of all the alarms the two loops built.
  No other widget of either layout is given annotations.
\<close>

theorem usage_widget_carries_all_annotations:
  assumes "new_RedshiftClusterMonitoring scope props w = Returned (this, w')"
  shows "summaryWidgets c this ! 1 =
           createCpuAndDiskUsageWidget this (ThirdWidth c) (DefaultSummaryWidgetHeight c)
    \<and> widgets c this ! 1 =
           createCpuAndDiskUsageWidget this (QuarterWidth c) (DefaultGraphWidgetHeight c)
    \<and> map widget_leftAnnotations (summaryWidgets c this) =
           [None, Some (usageAnnotations this), None, None]
    \<and> map widget_leftAnnotations (widgets c this) =
           [None, Some (usageAnnotations this), None, None, None, None]
    \<and> (\<exists>disk cpu w1 w2.
          build_in_order (addMaxDiskUsagePercentAlarm (createUsageAlarmFactory scope))
            (metricAverageDiskSpaceUsageInPercent (metricFactory scope))
            (for_in (addDiskSpaceUsageAlarm props)) w = (disk, w1, None)
        \<and> build_in_order (addMaxCpuUsagePercentAlarm (createUsageAlarmFactory scope))
            (metricAverageCpuUsageInPercent (metricFactory scope))
            (for_in (addCpuUsageAlarm props)) w1 = (cpu, w2, None)
        \<and> usageAnnotations this = map annotation (disk @ cpu))"
proof -
  from assms obtain disk cpu w1 w2 where
    d: "build_in_order (addMaxDiskUsagePercentAlarm (createUsageAlarmFactory scope))
        (metricAverageDiskSpaceUsageInPercent (metricFactory scope))
        (for_in (addDiskSpaceUsageAlarm props)) w = (disk, w1, None)"
    and c: "build_in_order (addMaxCpuUsagePercentAlarm (createUsageAlarmFactory scope))
        (metricAverageCpuUsageInPercent (metricFactory scope))
        (for_in (addCpuUsageAlarm props)) w1 = (cpu, w2, None)"
    and obj: "this = appended (disk @ cpu) (assign_fields scope props)"
    by (rule new_Returned_runs)
  have ann: "usageAnnotations this = map annotation (disk @ cpu)"
    by (simp add: obj appended_fields assign_fields_fields)
  have s1: "summaryWidgets c this ! 1 =
           createCpuAndDiskUsageWidget this (ThirdWidth c) (DefaultSummaryWidgetHeight c)"
    by (simp add: summaryWidgets_def)
  have s2: "widgets c this ! 1 =
           createCpuAndDiskUsageWidget this (QuarterWidth c) (DefaultGraphWidgetHeight c)"
    by (simp add: widgets_def)
  have s3: "map widget_leftAnnotations (summaryWidgets c this) =
           [None, Some (usageAnnotations this), None, None]"
    by (simp add: widget_defs widget_leftAnnotations_def)
  have s4: "map widget_leftAnnotations (widgets c this) =
           [None, Some (usageAnnotations this), None, None, None, None]"
    by (simp add: widget_defs widget_leftAnnotations_def)
  from d c ann s1 s2 s3 s4 show ?thesis by blast
qed

lemma example_run_no_consumer:
  "new_RedshiftClusterMonitoring (example_scope ''warehouse'')
     (example_props (Some [(''warn'', 70), (''crit'', 90)]) (Some [(''crit'', 90)]) None)
     ([], []) =
   Returned (example_object ''warehouse'' example_alarms,
             ([''Disk-warn'', ''Disk-crit'', ''CPU-crit''], []))"
  by (simp add: new_RedshiftClusterMonitoring_def assign_fields_def example_defs
      createdAlarms_def addAlarm_def for_in_defs)

theorem usage_widget_carries_all_annotations_witness:
  "new_RedshiftClusterMonitoring (example_scope ''warehouse'')
     (example_props (Some [(''warn'', 70), (''crit'', 90)]) (Some [(''crit'', 90)]) None)
     ([], []) =
   Returned (example_object ''warehouse'' example_alarms,
             ([''Disk-warn'', ''Disk-crit'', ''CPU-crit''], []))
   \<and> map widget_leftAnnotations
         (summaryWidgets example_grid (example_object ''warehouse'' example_alarms)) =
       [None, Some [(70, ''warn''), (90, ''crit''), (90, ''crit'')], None, None]
   \<and> map widget_leftAnnotations
         (widgets example_grid (example_object ''warehouse'' example_alarms)) =
       [None, Some [(70, ''warn''), (90, ''crit''), (90, ''crit'')], None, None, None, None]"
proof -
  note run = example_run_no_consumer
  have ann: "usageAnnotations (example_object ''warehouse'' example_alarms) =
       [(70, ''warn''), (90, ''crit''), (90, ''crit'')]"
    by (simp add: example_object_def example_alarms_def)
  from usage_widget_carries_all_annotations [OF run, of example_grid]
  have "map widget_leftAnnotations
         (summaryWidgets example_grid (example_object ''warehouse'' example_alarms)) =
       [None, Some (usageAnnotations (example_object ''warehouse'' example_alarms)), None, None]"
    and "map widget_leftAnnotations
         (widgets example_grid (example_object ''warehouse'' example_alarms)) =
       [None, Some (usageAnnotations (example_object ''warehouse'' example_alarms)),
        None, None, None, None]"
    by blast+
  with run ann show ?thesis by simp
qed

text \<open>
  C3. \<open>summaryWidgets\<close> returns 4 widgets and \<open>widgets\<close> returns 6, whatever the
  object holds. In particular, with both threshold maps empty or absent (and no
  consumer) the constructor returns an object without annotations, and its layouts
  have 4 and 6 widgets.
\<close>

theorem layout_sizes:
  "length (summaryWidgets c this) = 4 \<and> length (widgets c this) = 6
   \<and> (for_in (addDiskSpaceUsageAlarm props) = [] \<longrightarrow> for_in (addCpuUsageAlarm props) = [] \<longrightarrow>
      useCreatedAlarms props = None \<longrightarrow>
        (\<exists>empty. new_RedshiftClusterMonitoring scope props w = Returned (empty, w)
           \<and> usageAnnotations empty = []
           \<and> length (summaryWidgets c empty) = 4 \<and> length (widgets c empty) = 6))"
proof -
  have sizes: "length (summaryWidgets c this) = 4 \<and> length (widgets c this) = 6"
    by (simp add: summaryWidgets_def widgets_def)
  have sizes': "length (summaryWidgets c (assign_fields scope props)) = 4
      \<and> length (widgets c (assign_fields scope props)) = 6"
    by (simp add: summaryWidgets_def widgets_def)
  have "new_RedshiftClusterMonitoring scope props w = Returned (assign_fields scope props, w)"
    if "for_in (addDiskSpaceUsageAlarm props) = []" "for_in (addCpuUsageAlarm props) = []"
      "useCreatedAlarms props = None"
    using that by (simp add: new_RedshiftClusterMonitoring_def Let_def)
  moreover have "usageAnnotations (assign_fields scope props) = []"
    by (simp add: assign_fields_fields)
  ultimately show ?thesis using sizes sizes' by blast
qed

theorem layout_sizes_witness:
  "for_in (addDiskSpaceUsageAlarm (example_props None (Some []) None)) = []
   \<and> for_in (addCpuUsageAlarm (example_props None (Some []) None)) = []
   \<and> useCreatedAlarms (example_props None (Some []) None) = None
   \<and> (\<exists>empty. new_RedshiftClusterMonitoring (example_scope ''warehouse'')
          (example_props None (Some []) None) ([], []) = Returned (empty, ([], []))
        \<and> usageAnnotations empty = []
        \<and> length (summaryWidgets example_grid empty) = 4
        \<and> length (widgets example_grid empty) = 6)"
proof -
  have h: "for_in (addDiskSpaceUsageAlarm (example_props None (Some []) None)) = []"
    "for_in (addCpuUsageAlarm (example_props None (Some []) None)) = []"
    "useCreatedAlarms (example_props None (Some []) None) = None"
    by (simp_all add: example_props_def for_in_defs)
  from layout_sizes [of example_grid "example_object ''x'' []" "example_props None (Some []) None"
      "example_scope ''warehouse''" "([], [])"] h
  show ?thesis by blast
qed

text \<open>
  C4. In both layouts of a constructed object every graph widget has the axis of the
  unit family of each metric it shows: percentage for the CPU/disk widget, count for
  the connections widget, time in milliseconds for the query-duration and the latency
  widgets, boolean for the maintenance widget. The unit families of the metrics are
  those of the catalogue (\<open>catalogue_units\<close>).
\<close>

theorem widget_axis_matches_metric_units:
  assumes "new_RedshiftClusterMonitoring scope props w = Returned (this, w')"
    and "catalogue_units unit_of (metricFactory scope)"
  shows "(\<forall>wd \<in> set (summaryWidgets c this @ widgets c this).
            \<forall>m \<in> set (widget_metrics wd).
              map_option axis_family (widget_axis wd) = Some (unit_of m))
    \<and> map widget_axis (summaryWidgets c this) =
         [None, Some PercentageAxisFromZeroToHundred, Some CountAxisFromZero,
          Some TimeAxisMillisFromZero]
    \<and> map widget_axis (widgets c this) =
         [None, Some PercentageAxisFromZeroToHundred, Some CountAxisFromZero,
          Some TimeAxisMillisFromZero, Some TimeAxisMillisFromZero,
          Some BooleanAxisFromZeroToOne]"
proof -
  from assms(1) obtain disk cpu where
    obj: "this = appended (disk @ cpu) (assign_fields scope props)"
    by (rule new_Returned_runs)
  have units:
    "unit_of (connectionsMetric this) = Count"
    "unit_of (diskSpaceUsageMetric this) = Percentage"
    "unit_of (cpuUsageMetric this) = Percentage"
    "unit_of (shortQueryDurationMetric this) = TimeMillis"
    "unit_of (mediumQueryDurationMetric this) = TimeMillis"
    "unit_of (longQueryDurationMetric this) = TimeMillis"
    "unit_of (readLatencyMetric this) = TimeMillis"
    "unit_of (writeLatencyMetric this) = TimeMillis"
    "unit_of (maintenanceModeMetric this) = Boolean"
    using assms(2) by (simp_all add: obj appended_fields assign_fields_fields catalogue_units_def)
  have a: "\<forall>wd \<in> set (summaryWidgets c this @ widgets c this).
            \<forall>m \<in> set (widget_metrics wd).
              map_option axis_family (widget_axis wd) = Some (unit_of m)"
    by (simp add: widget_defs widget_metrics_def widget_axis_def units)
  have b: "map widget_axis (summaryWidgets c this) =
         [None, Some PercentageAxisFromZeroToHundred, Some CountAxisFromZero,
          Some TimeAxisMillisFromZero]"
    by (simp add: widget_defs widget_axis_def)
  have d: "map widget_axis (widgets c this) =
         [None, Some PercentageAxisFromZeroToHundred, Some CountAxisFromZero,
          Some TimeAxisMillisFromZero, Some TimeAxisMillisFromZero,
          Some BooleanAxisFromZeroToOne]"
    by (simp add: widget_defs widget_axis_def)
  from a b d show ?thesis by blast
qed

theorem widget_axis_matches_metric_units_witness:
  "new_RedshiftClusterMonitoring (example_scope ''warehouse'')
     (example_props (Some [(''warn'', 70), (''crit'', 90)]) (Some [(''crit'', 90)]) None)
     ([], []) =
   Returned (example_object ''warehouse'' example_alarms,
             ([''Disk-warn'', ''Disk-crit'', ''CPU-crit''], []))
   \<and> catalogue_units example_unit_of (metricFactory (example_scope ''warehouse''))
   \<and> createLatencyWidget (example_object ''warehouse'' example_alarms) 3 5
         \<in> set (widgets example_grid (example_object ''warehouse'' example_alarms))
   \<and> ''write'' \<in> set (widget_metrics
         (createLatencyWidget (example_object ''warehouse'' example_alarms) 3 5))
   \<and> map_option axis_family (widget_axis
         (createLatencyWidget (example_object ''warehouse'' example_alarms) 3 5)) =
       Some (example_unit_of ''write'')"
proof -
  note run = example_run_no_consumer
  have cat: "catalogue_units example_unit_of (metricFactory (example_scope ''warehouse''))"
    by (simp add: catalogue_units_def example_defs)
  have wd: "createLatencyWidget (example_object ''warehouse'' example_alarms) 3 5
         \<in> set (widgets example_grid (example_object ''warehouse'' example_alarms))"
    by (simp add: widgets_def example_grid_def)
  have m: "''write'' \<in> set (widget_metrics
         (createLatencyWidget (example_object ''warehouse'' example_alarms) 3 5))"
    by (simp add: createLatencyWidget_def widget_metrics_def example_object_def)
  from widget_axis_matches_metric_units [OF run cat, of example_grid] wd m
  have "map_option axis_family (widget_axis
         (createLatencyWidget (example_object ''warehouse'' example_alarms) 3 5)) =
       Some (example_unit_of ''write'')"
    by simp
  with run cat wd m show ?thesis by blast
qed

lemma construct_all_throws:
  "construct_all classes wds = Inl e \<Longrightarrow> \<exists>wd \<in> set wds. construct classes wd = Inl e"
proof (induction wds)
  case Nil
  then show ?case by simp
next
  case (Cons wd wds)
  show ?case
  proof (cases "construct classes wd")
    case (Inl e')
    with Cons.prems show ?thesis by simp
  next
    case (Inr g)
    with Cons.prems have "construct_all classes wds = Inl e"
      by (simp split: sum.splits)
    with Cons.IH show ?thesis by auto
  qed
qed

lemma construct_all_returns:
  "\<forall>wd \<in> set wds. \<exists>g. construct classes wd = Inr g \<Longrightarrow>
   \<exists>gs. construct_all classes wds = Inr gs
      \<and> list_all2 (\<lambda>wd g. construct classes wd = Inr g) wds gs"
proof (induction wds)
  case Nil
  show ?case by simp
next
  case (Cons wd wds)
  from Cons.prems obtain g where g: "construct classes wd = Inr g" by auto
  from Cons.prems Cons.IH obtain gs where gs: "construct_all classes wds = Inr gs"
    "list_all2 (\<lambda>wd g. construct classes wd = Inr g) wds gs"
    by auto
  from g gs show ?case by simp
qed

lemma summary_graphs_determine:
  "tl (summaryWidgets c this) = tl (summaryWidgets c this') \<longleftrightarrow>
     usageAnnotations this = usageAnnotations this'
     \<and> cpuUsageMetric this = cpuUsageMetric this'
     \<and> diskSpaceUsageMetric this = diskSpaceUsageMetric this'
     \<and> connectionsMetric this = connectionsMetric this'
     \<and> shortQueryDurationMetric this = shortQueryDurationMetric this'
     \<and> mediumQueryDurationMetric this = mediumQueryDurationMetric this'
     \<and> longQueryDurationMetric this = longQueryDurationMetric this'"
  by (auto simp: widget_defs)

lemma detailed_graphs_determine:
  "tl (widgets c this) = tl (widgets c this') \<longleftrightarrow>
     usageAnnotations this = usageAnnotations this'
     \<and> cpuUsageMetric this = cpuUsageMetric this'
     \<and> diskSpaceUsageMetric this = diskSpaceUsageMetric this'
     \<and> connectionsMetric this = connectionsMetric this'
     \<and> shortQueryDurationMetric this = shortQueryDurationMetric this'
     \<and> mediumQueryDurationMetric this = mediumQueryDurationMetric this'
     \<and> longQueryDurationMetric this = longQueryDurationMetric this'
     \<and> readLatencyMetric this = readLatencyMetric this'
     \<and> writeLatencyMetric this = writeLatencyMetric this'
     \<and> maintenanceModeMetric this = maintenanceModeMetric this'"
  by (auto simp: widget_defs)

text \<open>
  C5. A call of \<open>summaryWidgets\<close> or of \<open>widgets\<close> leaves the object as it was, so a
  second call, after either method, gives what the first gave: the same widgets, or the
  same error. The methods have no failure path of their own: a call throws only the
  error that one of the widget constructors throws, and when the constructors return,
  the call returns their widgets, in order. The layout is a function of the state of
  the object: the first widget is the header, which shows the title and the link, and
  the widgets after it are the same for two objects exactly when the objects have the same
  metric bindings (those the layout shows) and the same annotation sequence.
\<close>

theorem layout_calls_idempotent_and_pure:
  "snd (call_summaryWidgets classes c this) = this
   \<and> snd (call_widgets classes c this) = this
   \<and> call_summaryWidgets classes c (snd (call_summaryWidgets classes c this)) =
       call_summaryWidgets classes c this
   \<and> call_widgets classes c (snd (call_widgets classes c this)) =
       call_widgets classes c this
   \<and> call_summaryWidgets classes c (snd (call_widgets classes c this)) =
       call_summaryWidgets classes c this
   \<and> call_widgets classes c (snd (call_summaryWidgets classes c this)) =
       call_widgets classes c this
   \<and> (\<forall>e. fst (call_summaryWidgets classes c this) = Inl e \<longrightarrow>
          (\<exists>wd \<in> set (summaryWidgets c this). construct classes wd = Inl e))
   \<and> (\<forall>e. fst (call_widgets classes c this) = Inl e \<longrightarrow>
          (\<exists>wd \<in> set (widgets c this). construct classes wd = Inl e))
   \<and> ((\<forall>wd \<in> set (summaryWidgets c this). \<exists>g. construct classes wd = Inr g) \<longrightarrow>
          (\<exists>gs. fst (call_summaryWidgets classes c this) = Inr gs
             \<and> list_all2 (\<lambda>wd g. construct classes wd = Inr g) (summaryWidgets c this) gs))
   \<and> ((\<forall>wd \<in> set (widgets c this). \<exists>g. construct classes wd = Inr g) \<longrightarrow>
          (\<exists>gs. fst (call_widgets classes c this) = Inr gs
             \<and> list_all2 (\<lambda>wd g. construct classes wd = Inr g) (widgets c this) gs))
   \<and> hd (summaryWidgets c this) = createTitleWidget this
   \<and> hd (widgets c this) = createTitleWidget this
   \<and> (createTitleWidget this = (createTitleWidget this' :: ('a, 'b) IWidget) \<longleftrightarrow>
         title this = title this' \<and> url this = url this')
   \<and> (tl (summaryWidgets c this) = tl (summaryWidgets c this') \<longleftrightarrow>
         usageAnnotations this = usageAnnotations this'
         \<and> cpuUsageMetric this = cpuUsageMetric this'
         \<and> diskSpaceUsageMetric this = diskSpaceUsageMetric this'
         \<and> connectionsMetric this = connectionsMetric this'
         \<and> shortQueryDurationMetric this = shortQueryDurationMetric this'
         \<and> mediumQueryDurationMetric this = mediumQueryDurationMetric this'
         \<and> longQueryDurationMetric this = longQueryDurationMetric this')
   \<and> (tl (widgets c this) = tl (widgets c this') \<longleftrightarrow>
         usageAnnotations this = usageAnnotations this'
         \<and> cpuUsageMetric this = cpuUsageMetric this'
         \<and> diskSpaceUsageMetric this = diskSpaceUsageMetric this'
         \<and> connectionsMetric this = connectionsMetric this'
         \<and> shortQueryDurationMetric this = shortQueryDurationMetric this'
         \<and> mediumQueryDurationMetric this = mediumQueryDurationMetric this'
         \<and> longQueryDurationMetric this = longQueryDurationMetric this'
         \<and> readLatencyMetric this = readLatencyMetric this'
         \<and> writeLatencyMetric this = writeLatencyMetric this'
         \<and> maintenanceModeMetric this = maintenanceModeMetric this')"
proof -
  have unchanged: "snd (call_summaryWidgets classes c this) = this"
    "snd (call_widgets classes c this) = this"
    by (simp_all add: call_summaryWidgets_def call_widgets_def)
  have summary_throws: "\<exists>wd \<in> set (summaryWidgets c this). construct classes wd = Inl e"
    if "fst (call_summaryWidgets classes c this) = Inl e" for e
    using that by (simp add: call_summaryWidgets_def construct_all_throws)
  have detailed_throws: "\<exists>wd \<in> set (widgets c this). construct classes wd = Inl e"
    if "fst (call_widgets classes c this) = Inl e" for e
    using that by (simp add: call_widgets_def construct_all_throws)
  have summary_returns: "\<exists>gs. fst (call_summaryWidgets classes c this) = Inr gs
      \<and> list_all2 (\<lambda>wd g. construct classes wd = Inr g) (summaryWidgets c this) gs"
    if "\<forall>wd \<in> set (summaryWidgets c this). \<exists>g. construct classes wd = Inr g"
    using construct_all_returns [OF that] by (simp add: call_summaryWidgets_def)
  have detailed_returns: "\<exists>gs. fst (call_widgets classes c this) = Inr gs
      \<and> list_all2 (\<lambda>wd g. construct classes wd = Inr g) (widgets c this) gs"
    if "\<forall>wd \<in> set (widgets c this). \<exists>g. construct classes wd = Inr g"
    using construct_all_returns [OF that] by (simp add: call_widgets_def)
  have header: "hd (summaryWidgets c this) = createTitleWidget this"
    "hd (widgets c this) = createTitleWidget this"
    by (simp_all add: summaryWidgets_def widgets_def)
  have header_shows: "createTitleWidget this = (createTitleWidget this' :: ('a, 'b) IWidget) \<longleftrightarrow>
      title this = title this' \<and> url this = url this'"
    by (simp add: createTitleWidget_def)
  show ?thesis
    unfolding unchanged
    using summary_throws detailed_throws summary_returns detailed_returns header
      header_shows summary_graphs_determine [of c this this'] detailed_graphs_determine [of c this this']
    by blast
qed

theorem layout_calls_idempotent_and_pure_witness:
  "fst (call_widgets example_classes example_grid
         (example_object ''warehouse'' example_alarms)) =
       Inr [''Redshift Cluster: warehouse'', ''CPU/Disk Usage'', ''Connections'',
            ''Query Duration'', ''Latency'', ''Maintenance'']
   \<and> call_widgets example_classes example_grid
         (snd (call_widgets example_classes example_grid
            (example_object ''warehouse'' example_alarms))) =
       call_widgets example_classes example_grid (example_object ''warehouse'' example_alarms)
   \<and> fst (call_summaryWidgets example_classes (example_grid\<lparr>ThirdWidth := 0\<rparr>)
         (example_object ''warehouse'' example_alarms)) = Inl ''no width''
   \<and> list_ex (\<lambda>wd. construct example_classes wd = Inl ''no width'')
         (summaryWidgets (example_grid\<lparr>ThirdWidth := 0\<rparr>)
            (example_object ''warehouse'' example_alarms))
   \<and> tl (widgets example_grid (example_object ''warehouse'' example_alarms)) =
       tl (widgets example_grid ((example_object ''elsewhere'' example_alarms)\<lparr>alarms := []\<rparr>))
   \<and> tl (widgets example_grid (example_object ''warehouse'' example_alarms)) \<noteq>
       tl (widgets example_grid (example_object ''warehouse'' []))"
proof -
  let ?obj = "example_object ''warehouse'' example_alarms"
  let ?other = "(example_object ''elsewhere'' example_alarms)\<lparr>alarms := []\<rparr>"
  let ?bare = "example_object ''warehouse'' []"
  let ?narrow = "example_grid\<lparr>ThirdWidth := 0\<rparr>"
  note at_other = layout_calls_idempotent_and_pure
    [where classes = example_classes and c = example_grid and this = ?obj and this' = ?other]
  note at_bare = layout_calls_idempotent_and_pure
    [where classes = example_classes and c = example_grid and this = ?obj and this' = ?bare]
  note at_narrow = layout_calls_idempotent_and_pure
    [where classes = example_classes and c = ?narrow and this = ?obj and this' = ?obj]
  have all: "\<forall>wd \<in> set (widgets example_grid ?obj). \<exists>g. construct example_classes wd = Inr g"
    by (simp add: widget_defs construct_def example_classes_def example_grid_def)
  from at_other all obtain gs where gs: "fst (call_widgets example_classes example_grid ?obj) = Inr gs"
    "list_all2 (\<lambda>wd g. construct example_classes wd = Inr g) (widgets example_grid ?obj) gs"
    by blast
  from gs(2) have "gs = [''Redshift Cluster: warehouse'', ''CPU/Disk Usage'', ''Connections'',
            ''Query Duration'', ''Latency'', ''Maintenance'']"
    by (simp add: widget_defs construct_def example_classes_def example_grid_def
        example_object_def list_all2_Cons1)
  with gs(1) have gives: "fst (call_widgets example_classes example_grid ?obj) =
       Inr [''Redshift Cluster: warehouse'', ''CPU/Disk Usage'', ''Connections'',
            ''Query Duration'', ''Latency'', ''Maintenance'']"
    by simp
  have again: "call_widgets example_classes example_grid
         (snd (call_widgets example_classes example_grid ?obj)) =
       call_widgets example_classes example_grid ?obj"
    using at_other by blast
  have throws: "fst (call_summaryWidgets example_classes ?narrow ?obj) = Inl ''no width''"
    by (simp add: call_summaryWidgets_def widget_defs construct_def example_classes_def
        example_grid_def example_object_def)
  have origin: "\<exists>wd \<in> set (summaryWidgets ?narrow ?obj).
        construct example_classes wd = Inl ''no width''"
    using at_narrow throws by blast
  have agree: "usageAnnotations ?obj = usageAnnotations ?other
      \<and> cpuUsageMetric ?obj = cpuUsageMetric ?other
      \<and> diskSpaceUsageMetric ?obj = diskSpaceUsageMetric ?other
      \<and> connectionsMetric ?obj = connectionsMetric ?other
      \<and> shortQueryDurationMetric ?obj = shortQueryDurationMetric ?other
      \<and> mediumQueryDurationMetric ?obj = mediumQueryDurationMetric ?other
      \<and> longQueryDurationMetric ?obj = longQueryDurationMetric ?other
      \<and> readLatencyMetric ?obj = readLatencyMetric ?other
      \<and> writeLatencyMetric ?obj = writeLatencyMetric ?other
      \<and> maintenanceModeMetric ?obj = maintenanceModeMetric ?other"
    by (simp add: example_object_def)
  have same: "tl (widgets example_grid ?obj) = tl (widgets example_grid ?other)"
    using at_other agree by blast
  have "usageAnnotations ?obj \<noteq> usageAnnotations ?bare"
    by (simp add: example_object_def example_alarms_def)
  with at_bare have differ: "tl (widgets example_grid ?obj) \<noteq> tl (widgets example_grid ?bare)"
    by blast
  from origin have origin': "list_ex (\<lambda>wd. construct example_classes wd = Inl ''no width'')
      (summaryWidgets ?narrow ?obj)"
    by (simp only: list_ex_iff)
  from gives again throws origin' same differ show ?thesis by blast
qed

lemma build_in_order_silent:
  assumes "\<And>t k w a w'. add metric t k w = Inr (a, w') \<Longrightarrow> calls w' = calls w"
  shows "build_in_order add metric entries w = (as, w', r) \<Longrightarrow> calls w' = calls w"
proof (induction entries arbitrary: w as w' r)
  case Nil
  then show ?case by simp
next
  case (Cons p entries)
  obtain k t where p: "p = (k, t)" by (cases p)
  show ?case
  proof (cases "add metric t k w")
    case (Inl e)
    with Cons.prems show ?thesis by (simp add: p)
  next
    case (Inr x)
    obtain a w1 where x: "x = (a, w1)" by (cases x)
    obtain bs w2 r2 where rest: "build_in_order add metric entries w1 = (bs, w2, r2)"
      by (rule prod_cases3)
    from Cons.prems Inr x rest have "w' = w2" by (simp add: p)
    moreover from rest have "calls w2 = calls w1" by (rule Cons.IH)
    moreover from Inr x have "calls w1 = calls w" by (simp add: assms)
    ultimately show ?thesis by simp
  qed
qed

text \<open>
  C6. \<open>calls\<close> reads, from the world, the calls the consumer has received so far: the
  consumer adds the collection it is given, the alarm factory leaves the record alone.
  When the callback is supplied and the constructor returns, the consumer has received
  exactly one call more than before, with the alarm collection of the finished object,
  which holds the alarms of both threshold maps. When the constructor throws, and when
  no callback is supplied, the consumer has received no call.
\<close>

theorem consumer_called_once_with_all_alarms:
  assumes disk_silent: "\<And>m t k w a w'.
      addMaxDiskUsagePercentAlarm (createUsageAlarmFactory scope) m t k w = Inr (a, w')
        \<Longrightarrow> calls w' = calls w"
    and cpu_silent: "\<And>m t k w a w'.
      addMaxCpuUsagePercentAlarm (createUsageAlarmFactory scope) m t k w = Inr (a, w')
        \<Longrightarrow> calls w' = calls w"
    and recorded: "\<And>as w w'. consume as w = Inr w' \<Longrightarrow> calls w' = calls w @ [as]"
  shows "(\<forall>this w'.
            new_RedshiftClusterMonitoring scope (props\<lparr>useCreatedAlarms := Some consume\<rparr>) w
              = Returned (this, w') \<longrightarrow>
            calls w' = calls w @ [createdAlarms this]
            \<and> length (createdAlarms this) =
                length (for_in (addDiskSpaceUsageAlarm props))
                  + length (for_in (addCpuUsageAlarm props)))
    \<and> (\<forall>e this w'.
            new_RedshiftClusterMonitoring scope (props\<lparr>useCreatedAlarms := Some consume\<rparr>) w
              = Raised e (this, w') \<longrightarrow> calls w' = calls w)
    \<and> (\<forall>this w'.
            new_RedshiftClusterMonitoring scope (props\<lparr>useCreatedAlarms := None\<rparr>) w
              = Returned (this, w') \<longrightarrow> calls w' = calls w)"
proof -
  obtain disk w1 r1 where d:
    "build_in_order (addMaxDiskUsagePercentAlarm (createUsageAlarmFactory scope))
       (metricAverageDiskSpaceUsageInPercent (metricFactory scope))
       (for_in (addDiskSpaceUsageAlarm props)) w = (disk, w1, r1)"
    by (rule prod_cases3)
  obtain cpu w2 r2 where c:
    "build_in_order (addMaxCpuUsagePercentAlarm (createUsageAlarmFactory scope))
       (metricAverageCpuUsageInPercent (metricFactory scope))
       (for_in (addCpuUsageAlarm props)) w1 = (cpu, w2, r2)"
    by (rule prod_cases3)
  have w1: "calls w1 = calls w"
    using disk_silent d by (rule build_in_order_silent)
  have "calls w2 = calls w1"
    using cpu_silent c by (rule build_in_order_silent)
  with w1 have w2: "calls w2 = calls w" by simp
  have len: "length (disk @ cpu) =
      length (for_in (addDiskSpaceUsageAlarm props)) + length (for_in (addCpuUsageAlarm props))"
    if "r1 = None" "r2 = None"
    using that d c by (simp add: build_in_order_length)
  let ?with = "props\<lparr>useCreatedAlarms := Some consume\<rparr>"
  let ?without = "props\<lparr>useCreatedAlarms := None\<rparr>"
  have with_consumer:
    "new_RedshiftClusterMonitoring scope ?with w =
       (case r1 of
          Some e \<Rightarrow> Raised e (appended disk (assign_fields scope ?with), w1)
        | None \<Rightarrow>
           (case r2 of
              Some e \<Rightarrow> Raised e (appended (disk @ cpu) (assign_fields scope ?with), w2)
            | None \<Rightarrow>
               (case consume (disk @ cpu) w2 of
                  Inl e \<Rightarrow> Raised e (appended (disk @ cpu) (assign_fields scope ?with), w2)
                | Inr w3 \<Rightarrow> Returned (appended (disk @ cpu) (assign_fields scope ?with), w3))))"
    using new_by_runs [of scope ?with w disk w1 r1 cpu w2 r2] d c
    by (simp cong: option.case_cong)
  have without_consumer:
    "new_RedshiftClusterMonitoring scope ?without w =
       (case r1 of
          Some e \<Rightarrow> Raised e (appended disk (assign_fields scope ?without), w1)
        | None \<Rightarrow>
           (case r2 of
              Some e \<Rightarrow> Raised e (appended (disk @ cpu) (assign_fields scope ?without), w2)
            | None \<Rightarrow> Returned (appended (disk @ cpu) (assign_fields scope ?without), w2)))"
    using new_by_runs [of scope ?without w disk w1 r1 cpu w2 r2] d c
    by (simp cong: option.case_cong)
  have a: "calls w' = calls w @ [createdAlarms this]
            \<and> length (createdAlarms this) =
                length (for_in (addDiskSpaceUsageAlarm props))
                  + length (for_in (addCpuUsageAlarm props))"
    if ret: "new_RedshiftClusterMonitoring scope ?with w = Returned (this, w')" for this w'
  proof -
    from ret with_consumer have r: "r1 = None" "r2 = None"
      by (auto split: option.splits)
    with ret with_consumer
    have "consume (disk @ cpu) w2 = Inr w'"
      and obj: "this = appended (disk @ cpu) (assign_fields scope ?with)"
      by (auto split: sum.splits)
    then have "calls w' = calls w2 @ [disk @ cpu]"
      by (simp add: recorded)
    moreover have "createdAlarms this = disk @ cpu"
      by (simp add: obj createdAlarms_def appended_fields assign_fields_fields)
    ultimately show ?thesis using w2 len [OF r] by simp
  qed
  have b: "calls w' = calls w"
    if "new_RedshiftClusterMonitoring scope ?with w = Raised e (this, w')" for e this w'
    using that with_consumer w1 w2
    by (auto split: option.splits sum.splits)
  have n: "calls w' = calls w"
    if "new_RedshiftClusterMonitoring scope ?without w = Returned (this, w')" for this w'
    using that without_consumer w2
    by (auto split: option.splits)
  from a b n show ?thesis by blast
qed

lemma example_add_silent:
  "example_add prefix m t k w = Inr (a, w') \<Longrightarrow> snd w' = snd w"
  by (auto simp: example_add_def split: if_splits)

lemma example_consume_recorded:
  "example_consume as w = Inr w' \<Longrightarrow> snd w' = snd w @ [as]"
  by (auto simp: example_consume_def)

theorem consumer_called_once_with_all_alarms_witness:
  "new_RedshiftClusterMonitoring (example_scope ''warehouse'')
     (example_props (Some [(''warn'', 70), (''crit'', 90)]) (Some [(''crit'', 90)])
        (Some example_consume)) ([], []) =
   Returned (example_object ''warehouse'' example_alarms,
             ([''Disk-warn'', ''Disk-crit'', ''CPU-crit''], [example_alarms]))
   \<and> snd ([''Disk-warn'', ''Disk-crit'', ''CPU-crit''], [example_alarms]) =
       snd (([], []) :: example_world)
         @ [createdAlarms (example_object ''warehouse'' example_alarms)]
   \<and> length (createdAlarms (example_object ''warehouse'' example_alarms)) = 2 + 1"
proof -
  let ?props = "example_props (Some [(''warn'', 70), (''crit'', 90)]) (Some [(''crit'', 90)]) None"
  have props: "?props\<lparr>useCreatedAlarms := Some example_consume\<rparr> =
      example_props (Some [(''warn'', 70), (''crit'', 90)]) (Some [(''crit'', 90)])
        (Some example_consume)"
    by (simp add: example_props_def)
  have sizes: "length (for_in (addDiskSpaceUsageAlarm ?props)) = 2"
    "length (for_in (addCpuUsageAlarm ?props)) = 1"
    by (simp_all add: example_props_def for_in_defs)
  have disk: "\<And>m t k w a w'.
      addMaxDiskUsagePercentAlarm (createUsageAlarmFactory (example_scope ''warehouse'')) m t k w
        = Inr (a, w') \<Longrightarrow> snd w' = snd w"
    by (simp add: example_scope_def example_add_silent)
  have cpu: "\<And>m t k w a w'.
      addMaxCpuUsagePercentAlarm (createUsageAlarmFactory (example_scope ''warehouse'')) m t k w
        = Inr (a, w') \<Longrightarrow> snd w' = snd w"
    by (simp add: example_scope_def example_add_silent)
  note run = example_run
  from consumer_called_once_with_all_alarms
    [where scope = "example_scope ''warehouse''" and calls = snd
       and consume = example_consume and props = ?props and w = "([], [])",
      OF disk cpu example_consume_recorded]
    run
  show ?thesis
    by (simp add: props sizes example_alarms_def)
qed

text \<open>
  C7. In the detailed layout the first four widgets are the four widgets of the
  summary layout at quarter width and graph height (same titles, metrics, axes and
  annotations), the fifth is the latency widget with the read-latency and the
  write-latency metric on the time axis at half-quarter width, and the sixth is the
  maintenance widget with the maintenance metric alone on the boolean axis at
  half-quarter width.
\<close>

theorem detailed_layout:
  "take 4 (widgets c this) =
     map (resized (QuarterWidth c) (DefaultGraphWidgetHeight c)) (summaryWidgets c this)
   \<and> map widget_width (take 4 (widgets c this)) =
       [None, Some (QuarterWidth c), Some (QuarterWidth c), Some (QuarterWidth c)]
   \<and> widgets c this ! 4 =
       createLatencyWidget this (HalfQuarterWidth c) (DefaultGraphWidgetHeight c)
   \<and> widget_metrics (widgets c this ! 4) = [readLatencyMetric this, writeLatencyMetric this]
   \<and> widget_axis (widgets c this ! 4) = Some TimeAxisMillisFromZero
   \<and> widget_width (widgets c this ! 4) = Some (HalfQuarterWidth c)
   \<and> widgets c this ! 5 =
       createMaintenanceWidget this (HalfQuarterWidth c) (DefaultGraphWidgetHeight c)
   \<and> widget_metrics (widgets c this ! 5) = [maintenanceModeMetric this]
   \<and> widget_axis (widgets c this ! 5) = Some BooleanAxisFromZeroToOne
   \<and> widget_width (widgets c this ! 5) = Some (HalfQuarterWidth c)
   \<and> length (widgets c this) = 6"
proof -
  have first_four: "take 4 (widgets c this) =
      map (resized (QuarterWidth c) (DefaultGraphWidgetHeight c)) (summaryWidgets c this)"
    by (simp add: widget_defs resized_def)
  have widths: "map widget_width (take 4 (widgets c this)) =
      [None, Some (QuarterWidth c), Some (QuarterWidth c), Some (QuarterWidth c)]"
    by (simp add: widget_defs widget_width_def)
  have fifth: "widgets c this ! 4 =
      createLatencyWidget this (HalfQuarterWidth c) (DefaultGraphWidgetHeight c)"
    by (simp add: widgets_def)
  have sixth: "widgets c this ! 5 =
      createMaintenanceWidget this (HalfQuarterWidth c) (DefaultGraphWidgetHeight c)"
    by (simp add: widgets_def)
  have latency:
    "widget_metrics (createLatencyWidget this (HalfQuarterWidth c) (DefaultGraphWidgetHeight c))
       = [readLatencyMetric this, writeLatencyMetric this]"
    "widget_axis (createLatencyWidget this (HalfQuarterWidth c) (DefaultGraphWidgetHeight c))
       = Some TimeAxisMillisFromZero"
    "widget_width (createLatencyWidget this (HalfQuarterWidth c) (DefaultGraphWidgetHeight c))
       = Some (HalfQuarterWidth c)"
    by (simp_all add: createLatencyWidget_def widget_metrics_def widget_axis_def widget_width_def)
  have maintenance:
    "widget_metrics (createMaintenanceWidget this (HalfQuarterWidth c) (DefaultGraphWidgetHeight c))
       = [maintenanceModeMetric this]"
    "widget_axis (createMaintenanceWidget this (HalfQuarterWidth c) (DefaultGraphWidgetHeight c))
       = Some BooleanAxisFromZeroToOne"
    "widget_width (createMaintenanceWidget this (HalfQuarterWidth c) (DefaultGraphWidgetHeight c))
       = Some (HalfQuarterWidth c)"
    by (simp_all add: createMaintenanceWidget_def widget_metrics_def widget_axis_def
        widget_width_def)
  have six: "length (widgets c this) = 6"
    by (simp add: widgets_def)
  show ?thesis
    using first_four widths six by (simp add: fifth sixth latency maintenance)
qed

text \<open>
  C10. In both layouts of a constructed object the metrics of a widget are in a fixed
  order: the usage widget has the cpu-usage metric of the catalogue, then the
  disk-usage metric; the query-duration widget the short, the medium, then the long
  duration metric; the latency widget the read-latency, then the write-latency metric.
\<close>

theorem widget_metric_order:
  assumes "new_RedshiftClusterMonitoring scope props w = Returned (this, w')"
  shows "map widget_metrics (summaryWidgets c this) =
      [[],
       [metricAverageCpuUsageInPercent (metricFactory scope),
        metricAverageDiskSpaceUsageInPercent (metricFactory scope)],
       [metricTotalConnectionCount (metricFactory scope)],
       [metricShortQueryDurationP90InMillis (metricFactory scope),
        metricMediumQueryDurationP90InMillis (metricFactory scope),
        metricLongQueryDurationP90InMillis (metricFactory scope)]]
    \<and> map widget_metrics (widgets c this) =
      [[],
       [metricAverageCpuUsageInPercent (metricFactory scope),
        metricAverageDiskSpaceUsageInPercent (metricFactory scope)],
       [metricTotalConnectionCount (metricFactory scope)],
       [metricShortQueryDurationP90InMillis (metricFactory scope),
        metricMediumQueryDurationP90InMillis (metricFactory scope),
        metricLongQueryDurationP90InMillis (metricFactory scope)],
       [metricReadLatencyP90InMillis (metricFactory scope),
        metricWriteLatencyP90InMillis (metricFactory scope)],
       [metricMaintenanceModeEnabled (metricFactory scope)]]"
proof -
  from assms obtain disk cpu where
    obj: "this = appended (disk @ cpu) (assign_fields scope props)"
    by (rule new_Returned_runs)
  show ?thesis
    by (simp add: widget_defs widget_metrics_def obj appended_fields assign_fields_fields)
qed

theorem widget_metric_order_witness:
  "new_RedshiftClusterMonitoring (example_scope ''warehouse'')
     (example_props (Some [(''warn'', 70), (''crit'', 90)]) (Some [(''crit'', 90)]) None)
     ([], []) =
   Returned (example_object ''warehouse'' example_alarms,
             ([''Disk-warn'', ''Disk-crit'', ''CPU-crit''], []))
   \<and> map widget_metrics (summaryWidgets example_grid (example_object ''warehouse'' example_alarms)) =
       [[], [''cpu'', ''disk''], [''connections''], [''short'', ''medium'', ''long'']]
   \<and> map widget_metrics (widgets example_grid (example_object ''warehouse'' example_alarms)) =
       [[], [''cpu'', ''disk''], [''connections''], [''short'', ''medium'', ''long''],
        [''read'', ''write''], [''maintenance'']]"
proof -
  note run = example_run_no_consumer
  from widget_metric_order [OF run, of example_grid] run
  show ?thesis
    by (simp add: example_scope_def example_factory_def)
qed

lemma build_in_order_prefix:
  "n < length entries \<Longrightarrow> build_in_order add metric (take n entries) w = (as, w1, None) \<Longrightarrow>
   add metric (snd (entries ! n)) (fst (entries ! n)) w1 = Inl e \<Longrightarrow>
   build_in_order add metric entries w = (as, w1, Some e)"
proof (induction entries arbitrary: n w as)
  case Nil
  then show ?case by simp
next
  case (Cons p entries)
  obtain k t where p: "p = (k, t)" by (cases p)
  show ?case
  proof (cases n)
    case 0
    with Cons.prems show ?thesis by (simp add: p)
  next
    case (Suc j)
    with Cons.prems Cons.IH [of j] show ?thesis
      by (auto simp: p split: sum.splits prod.splits)
  qed
qed

text \<open>
  C9. Entries are counted from 0 here, so \<open>n\<close> entries come before entry \<open>n\<close>. If the
  alarm factory returns for the first \<open>n\<close> entries of the disk-usage map and throws
  \<open>e\<close> on entry \<open>n\<close>, the constructor throws \<open>e\<close>, and the object then holds the \<open>n\<close>
  alarms built so far and their annotations, in order; the world is the one the \<open>n\<close>
  calls that returned left. The same holds for the cpu-usage map, once the loop over
  the disk-usage map is through: the object then holds the disk-usage alarms followed
  by the \<open>n\<close> cpu-usage alarms built so far.
\<close>

theorem builder_failure_keeps_earlier_alarms:
  "(n < length (for_in (addDiskSpaceUsageAlarm props)) \<longrightarrow>
    build_in_order (addMaxDiskUsagePercentAlarm (createUsageAlarmFactory scope))
      (metricAverageDiskSpaceUsageInPercent (metricFactory scope))
      (take n (for_in (addDiskSpaceUsageAlarm props))) w = (built, w1, None) \<longrightarrow>
    addMaxDiskUsagePercentAlarm (createUsageAlarmFactory scope)
      (metricAverageDiskSpaceUsageInPercent (metricFactory scope))
      (snd (for_in (addDiskSpaceUsageAlarm props) ! n))
      (fst (for_in (addDiskSpaceUsageAlarm props) ! n)) w1 = Inl e \<longrightarrow>
    (\<exists>this. new_RedshiftClusterMonitoring scope props w = Raised e (this, w1)
       \<and> usageAnnotations this = map annotation built
       \<and> createdAlarms this = built
       \<and> length built = n))
   \<and>
   (build_in_order (addMaxDiskUsagePercentAlarm (createUsageAlarmFactory scope))
      (metricAverageDiskSpaceUsageInPercent (metricFactory scope))
      (for_in (addDiskSpaceUsageAlarm props)) w = (disk, w1, None) \<longrightarrow>
    n < length (for_in (addCpuUsageAlarm props)) \<longrightarrow>
    build_in_order (addMaxCpuUsagePercentAlarm (createUsageAlarmFactory scope))
      (metricAverageCpuUsageInPercent (metricFactory scope))
      (take n (for_in (addCpuUsageAlarm props))) w1 = (built, w2, None) \<longrightarrow>
    addMaxCpuUsagePercentAlarm (createUsageAlarmFactory scope)
      (metricAverageCpuUsageInPercent (metricFactory scope))
      (snd (for_in (addCpuUsageAlarm props) ! n))
      (fst (for_in (addCpuUsageAlarm props) ! n)) w2 = Inl e \<longrightarrow>
    (\<exists>this. new_RedshiftClusterMonitoring scope props w = Raised e (this, w2)
       \<and> usageAnnotations this = map annotation (disk @ built)
       \<and> createdAlarms this = disk @ built
       \<and> length built = n))"
proof (intro conjI impI)
  assume n: "n < length (for_in (addDiskSpaceUsageAlarm props))"
    and before: "build_in_order (addMaxDiskUsagePercentAlarm (createUsageAlarmFactory scope))
      (metricAverageDiskSpaceUsageInPercent (metricFactory scope))
      (take n (for_in (addDiskSpaceUsageAlarm props))) w = (built, w1, None)"
    and fails: "addMaxDiskUsagePercentAlarm (createUsageAlarmFactory scope)
      (metricAverageDiskSpaceUsageInPercent (metricFactory scope))
      (snd (for_in (addDiskSpaceUsageAlarm props) ! n))
      (fst (for_in (addDiskSpaceUsageAlarm props) ! n)) w1 = Inl e"
  let ?obj = "appended built (assign_fields scope props)"
  from n before fails
  have d: "build_in_order (addMaxDiskUsagePercentAlarm (createUsageAlarmFactory scope))
      (metricAverageDiskSpaceUsageInPercent (metricFactory scope))
      (for_in (addDiskSpaceUsageAlarm props)) w = (built, w1, Some e)"
    by (rule build_in_order_prefix)
  obtain cpu w2' r2 where c:
    "build_in_order (addMaxCpuUsagePercentAlarm (createUsageAlarmFactory scope))
       (metricAverageCpuUsageInPercent (metricFactory scope))
       (for_in (addCpuUsageAlarm props)) w1 = (cpu, w2', r2)"
    by (rule prod_cases3)
  have "new_RedshiftClusterMonitoring scope props w = Raised e (?obj, w1)"
    using new_by_runs [OF d c] by simp
  moreover have "usageAnnotations ?obj = map annotation built" "createdAlarms ?obj = built"
    by (simp_all add: createdAlarms_def appended_fields assign_fields_fields)
  moreover from before n have "length built = n"
    by (simp add: build_in_order_length)
  ultimately show "\<exists>this. new_RedshiftClusterMonitoring scope props w = Raised e (this, w1)
       \<and> usageAnnotations this = map annotation built
       \<and> createdAlarms this = built
       \<and> length built = n"
    by blast
next
  assume d: "build_in_order (addMaxDiskUsagePercentAlarm (createUsageAlarmFactory scope))
      (metricAverageDiskSpaceUsageInPercent (metricFactory scope))
      (for_in (addDiskSpaceUsageAlarm props)) w = (disk, w1, None)"
    and n: "n < length (for_in (addCpuUsageAlarm props))"
    and before: "build_in_order (addMaxCpuUsagePercentAlarm (createUsageAlarmFactory scope))
      (metricAverageCpuUsageInPercent (metricFactory scope))
      (take n (for_in (addCpuUsageAlarm props))) w1 = (built, w2, None)"
    and fails: "addMaxCpuUsagePercentAlarm (createUsageAlarmFactory scope)
      (metricAverageCpuUsageInPercent (metricFactory scope))
      (snd (for_in (addCpuUsageAlarm props) ! n))
      (fst (for_in (addCpuUsageAlarm props) ! n)) w2 = Inl e"
  let ?obj = "appended (disk @ built) (assign_fields scope props)"
  from n before fails
  have c: "build_in_order (addMaxCpuUsagePercentAlarm (createUsageAlarmFactory scope))
      (metricAverageCpuUsageInPercent (metricFactory scope))
      (for_in (addCpuUsageAlarm props)) w1 = (built, w2, Some e)"
    by (rule build_in_order_prefix)
  have "new_RedshiftClusterMonitoring scope props w = Raised e (?obj, w2)"
    using new_by_runs [OF d c] by simp
  moreover have "usageAnnotations ?obj = map annotation (disk @ built)"
    "createdAlarms ?obj = disk @ built"
    by (simp_all add: createdAlarms_def appended_fields assign_fields_fields)
  moreover from before n have "length built = n"
    by (simp add: build_in_order_length)
  ultimately show "\<exists>this. new_RedshiftClusterMonitoring scope props w = Raised e (this, w2)
       \<and> usageAnnotations this = map annotation (disk @ built)
       \<and> createdAlarms this = disk @ built
       \<and> length built = n"
    by blast
qed

theorem builder_failure_keeps_earlier_alarms_witness:
  "(\<exists>this. new_RedshiftClusterMonitoring (example_scope ''warehouse'')
       (example_props (Some [(''warn'', 70), (''crit'', 190), (''page'', 95)])
          (Some [(''crit'', 90)]) (Some example_consume)) ([], []) =
       Raised ''limit above 100'' (this, ([''Disk-warn''], []))
     \<and> usageAnnotations this = [(70, ''warn'')]
     \<and> createdAlarms this = [\<lparr>annotation = (70, ''warn''), alarm = ''Disk-warn''\<rparr>])
   \<and> (\<exists>this. new_RedshiftClusterMonitoring (example_scope ''warehouse'')
       (example_props (Some [(''warn'', 70)])
          (Some [(''warn'', 80), (''crit'', 190)]) (Some example_consume)) ([], []) =
       Raised ''limit above 100'' (this, ([''Disk-warn'', ''CPU-warn''], []))
     \<and> usageAnnotations this = [(70, ''warn''), (80, ''warn'')]
     \<and> createdAlarms this =
         [\<lparr>annotation = (70, ''warn''), alarm = ''Disk-warn''\<rparr>,
          \<lparr>annotation = (80, ''warn''), alarm = ''CPU-warn''\<rparr>])"
proof -
  let ?A = "example_props (Some [(''warn'', 70), (''crit'', 190), (''page'', 95)])
          (Some [(''crit'', 90)]) (Some example_consume)"
  let ?B = "example_props (Some [(''warn'', 70)])
          (Some [(''warn'', 80), (''crit'', 190)]) (Some example_consume)"
  let ?s = "example_scope ''warehouse''"
  let ?dw = "\<lparr>annotation = (70::nat, ''warn''), alarm = ''Disk-warn''\<rparr>"
  let ?cw = "\<lparr>annotation = (80::nat, ''warn''), alarm = ''CPU-warn''\<rparr>"
  have a1: "1 < length (for_in (addDiskSpaceUsageAlarm ?A))"
    by (simp add: example_defs for_in_defs)
  have a2: "build_in_order (addMaxDiskUsagePercentAlarm (createUsageAlarmFactory ?s))
      (metricAverageDiskSpaceUsageInPercent (metricFactory ?s))
      (take 1 (for_in (addDiskSpaceUsageAlarm ?A))) ([], []) = ([?dw], ([''Disk-warn''], []), None)"
    by (simp add: example_defs for_in_defs)
  have a3: "addMaxDiskUsagePercentAlarm (createUsageAlarmFactory ?s)
      (metricAverageDiskSpaceUsageInPercent (metricFactory ?s))
      (snd (for_in (addDiskSpaceUsageAlarm ?A) ! 1))
      (fst (for_in (addDiskSpaceUsageAlarm ?A) ! 1)) ([''Disk-warn''], []) = Inl ''limit above 100''"
    by (simp add: example_defs for_in_defs)
  have b0: "build_in_order (addMaxDiskUsagePercentAlarm (createUsageAlarmFactory ?s))
      (metricAverageDiskSpaceUsageInPercent (metricFactory ?s))
      (for_in (addDiskSpaceUsageAlarm ?B)) ([], []) = ([?dw], ([''Disk-warn''], []), None)"
    by (simp add: example_defs for_in_defs)
  have b1: "1 < length (for_in (addCpuUsageAlarm ?B))"
    by (simp add: example_defs for_in_defs)
  have b2: "build_in_order (addMaxCpuUsagePercentAlarm (createUsageAlarmFactory ?s))
      (metricAverageCpuUsageInPercent (metricFactory ?s))
      (take 1 (for_in (addCpuUsageAlarm ?B))) ([''Disk-warn''], []) =
        ([?cw], ([''Disk-warn'', ''CPU-warn''], []), None)"
    by (simp add: example_defs for_in_defs)
  have b3: "addMaxCpuUsagePercentAlarm (createUsageAlarmFactory ?s)
      (metricAverageCpuUsageInPercent (metricFactory ?s))
      (snd (for_in (addCpuUsageAlarm ?B) ! 1))
      (fst (for_in (addCpuUsageAlarm ?B) ! 1)) ([''Disk-warn'', ''CPU-warn''], []) =
        Inl ''limit above 100''"
    by (simp add: example_defs for_in_defs)
  from builder_failure_keeps_earlier_alarms
    [where n = 1 and props = ?A and scope = ?s and w = "([], [])" and built = "[?dw]"
       and ?w1.0 = "([''Disk-warn''], [])" and e = "''limit above 100''"]
    a1 a2 a3
  have A: "\<exists>this. new_RedshiftClusterMonitoring ?s ?A ([], []) =
       Raised ''limit above 100'' (this, ([''Disk-warn''], []))
     \<and> usageAnnotations this = [(70, ''warn'')]
     \<and> createdAlarms this = [?dw]"
    by simp
  from builder_failure_keeps_earlier_alarms
    [where n = 1 and props = ?B and scope = ?s and w = "([], [])" and built = "[?cw]"
       and disk = "[?dw]" and ?w1.0 = "([''Disk-warn''], [])"
       and ?w2.0 = "([''Disk-warn'', ''CPU-warn''], [])" and e = "''limit above 100''"]
    b0 b1 b2 b3
  have B: "\<exists>this. new_RedshiftClusterMonitoring ?s ?B ([], []) =
       Raised ''limit above 100'' (this, ([''Disk-warn'', ''CPU-warn''], []))
     \<and> usageAnnotations this = [(70, ''warn''), (80, ''warn'')]
     \<and> createdAlarms this = [?dw, ?cw]"
    by simp
  from A B show ?thesis by blast
qed

end
